theory Spec2Isabelle
  imports Complex_Main "HOL-Library.Sublist"
begin

section \<open>NeuralNexus: the search-augmented answer pipeline\<close>

text \<open>
  A shallow embedding of \<^verbatim>\<open>src/web_search.py\<close>, \<^verbatim>\<open>src/llm_handler.py\<close> and the
  role classes \<^verbatim>\<open>src/roles/fact_checker.py\<close> and \<^verbatim>\<open>src/roles/research_assistant.py\<close>.

  Conventions of the embedding:
  \<^item> Python \<^verbatim>\<open>str\<close> is \<^typ>\<open>string\<close>; the character classes of \<^verbatim>\<open>str.lower\<close>,
    \<^verbatim>\<open>str.strip\<close> and the regular expressions are the ASCII ones.
  \<^item> Python \<^verbatim>\<open>float\<close> is \<^typ>\<open>real\<close>: the rounding of IEEE doubles is not part of the
    model. Python \<^verbatim>\<open>int\<close> is \<^typ>\<open>int\<close> or \<^typ>\<open>nat\<close>; the division of two integers
    that raises \<^verbatim>\<open>OverflowError\<close> is modelled.
  \<^item> A dictionary with a fixed set of optional keys is a record of options; a raised
    exception is the \<open>Inl\<close> branch of a sum.
  \<^item> What the environment decides (the process environment, the wall clock, the
    answers of the search provider) is an explicit argument.
\<close>

subsection \<open>Python string primitives\<close>

text \<open>\<^verbatim>\<open>s.split(sep)\<close> for a one-character separator: never empty, keeps empty fields.\<close>

fun split_on :: "char \<Rightarrow> string \<Rightarrow> string list" where
  "split_on sep [] = [[]]"
| "split_on sep (c # cs) =
     (if c = sep then [] # split_on sep cs
      else (case split_on sep cs of [] \<Rightarrow> [[c]] | w # ws \<Rightarrow> (c # w) # ws))"

text \<open>\<^verbatim>\<open>d.get(key, default)\<close> on a dictionary given as a map.\<close>

definition dict_get :: "('k \<rightharpoonup> 'v) \<Rightarrow> 'k \<Rightarrow> 'v \<Rightarrow> 'v" where
  "dict_get d k dflt = (case d k of None \<Rightarrow> dflt | Some v \<Rightarrow> v)"

subsection \<open>Exceptions\<close>

text \<open>
  The Python exceptions that the modelled code can raise, each with the text that
  \<^verbatim>\<open>str(e)\<close> gives.
\<close>

datatype exn =
    ValueError string
  | KeyError string
  | IndexError string
  | AttributeError string
  | StatisticsError string
  | TimeoutException string
  | HTTPStatusError nat string
  | OpenAIError string
  | OverflowError string
  | ZeroDivisionError string

definition str_exn :: "exn \<Rightarrow> string" where
  "str_exn e = (case e of
       ValueError m \<Rightarrow> m | KeyError m \<Rightarrow> m | IndexError m \<Rightarrow> m | AttributeError m \<Rightarrow> m
     | StatisticsError m \<Rightarrow> m | TimeoutException m \<Rightarrow> m | HTTPStatusError _ m \<Rightarrow> m
     | OpenAIError m \<Rightarrow> m | OverflowError m \<Rightarrow> m | ZeroDivisionError m \<Rightarrow> m)"

text \<open>\<^verbatim>\<open>str(n)\<close> for a non-negative integer, as the f-strings render it.\<close>

definition digit_char :: "nat \<Rightarrow> char" where
  "digit_char d = ''0123456789'' ! d"

fun str_nat :: "nat \<Rightarrow> string" where
  "str_nat n = (if n < 10 then [digit_char n] else str_nat (n div 10) @ [digit_char (n mod 10)])"

text \<open>
  Python's true division \<^verbatim>\<open>a / b\<close> of two \<^verbatim>\<open>int\<close>s. The quotient is rounded to the
  nearest double, and the division raises \<^verbatim>\<open>OverflowError\<close> when that is beyond the
  largest double, that is, when the magnitude of the quotient is at least
  \<open>2 ^ 1024 - 2 ^ 970\<close>. Inside that range the rounding is not modelled.
\<close>

definition float_overflow_bound :: real where
  "float_overflow_bound = 2 ^ 1024 - 2 ^ 970"

definition int_true_div :: "int \<Rightarrow> int \<Rightarrow> exn + real" where
  "int_true_div a b =
     (if b = 0 then Inl (ZeroDivisionError ''division by zero'')
      else if float_overflow_bound \<le> \<bar>real_of_int a / real_of_int b\<bar>
      then Inl (OverflowError ''integer division result too large for a float'')
      else Inr (real_of_int a / real_of_int b))"

subsection \<open>Result Scorer: source quality\<close>

text \<open>
  The \<^verbatim>\<open>source\<close> dictionary read by \<^verbatim>\<open>assess_source_quality\<close>: the keys
  \<^verbatim>\<open>'domain'\<close>, \<^verbatim>\<open>'publication_year'\<close> and \<^verbatim>\<open>'type'\<close>, each of which may be absent.
\<close>

record source =
  domain :: "string option"
  publication_year :: "int option"
  source_type :: "string option"

definition reputable_domains :: "string \<rightharpoonup> real" where
  "reputable_domains =
     map_of [(''edu'', 9 / 10), (''gov'', 9 / 10), (''org'', 7 / 10), (''com'', 5 / 10)]"

definition source_types :: "string \<rightharpoonup> real" where
  "source_types =
     map_of [(''academic'', 9 / 10), (''news'', 6 / 10), (''blog'', 4 / 10), (''forum'', 3 / 10)]"

text \<open>
  \<^verbatim>\<open>assess_source_quality(self, source)\<close>; \<open>current_year\<close> is \<^verbatim>\<open>datetime.now().year\<close>.
  The only step that can raise is the division \<^verbatim>\<open>years_old / 10\<close>.
\<close>

definition assess_source_quality :: "int \<Rightarrow> source \<Rightarrow> exn + real" where
  "assess_source_quality current_year src =
     (let quality_score = 0;
          dom_name = (case domain src of None \<Rightarrow> [] | Some d \<Rightarrow> d);
          domain_ext = last (split_on CHR ''.'' dom_name);
          quality_score = quality_score + dict_get reputable_domains domain_ext (3 / 10);
          pub_year = (case publication_year src of None \<Rightarrow> current_year | Some y \<Rightarrow> y);
          years_old = current_year - pub_year
      in case int_true_div years_old 10 of
           Inl e \<Rightarrow> Inl e
         | Inr tenths \<Rightarrow>
             (let freshness_score = max 0 (1 - tenths);
                  quality_score = quality_score + freshness_score * (3 / 10);
                  type_name = (case source_type src of None \<Rightarrow> ''unknown'' | Some t \<Rightarrow> t);
                  quality_score = quality_score + dict_get source_types type_name (2 / 10)
              in Inr (min 1 (quality_score / 2))))"

subsection \<open>Confidence Aggregator\<close>

text \<open>
  \<^verbatim>\<open>statistics.stdev\<close>: the sample standard deviation; it raises
  \<^verbatim>\<open>StatisticsError\<close> on fewer than two data points.
\<close>

definition mean :: "real list \<Rightarrow> real" where
  "mean xs = sum_list xs / real (length xs)"

definition stdev :: "real list \<Rightarrow> exn + real" where
  "stdev xs =
     (if length xs < 2 then Inl (StatisticsError ''stdev requires at least two data points'')
      else Inr (sqrt (sum_list (map (\<lambda>x. (x - mean xs)\<^sup>2) xs) / real (length xs - 1))))"

text \<open>
  The list comprehension \<^verbatim>\<open>[self.assess_source_quality(source) for source in sources]\<close>:
  the first source whose assessment raises ends it.
\<close>

fun assess_all :: "int \<Rightarrow> source list \<Rightarrow> exn + real list" where
  "assess_all current_year [] = Inr []"
| "assess_all current_year (src # rest) =
     (case assess_source_quality current_year src of
        Inl e \<Rightarrow> Inl e
      | Inr score \<Rightarrow>
          (case assess_all current_year rest of
             Inl e \<Rightarrow> Inl e
           | Inr scores \<Rightarrow> Inr (score # scores)))"

text \<open>
  \<^verbatim>\<open>calculate_confidence(self, sources)\<close>. The result is the pair
  \<open>(confidence_score, reasons)\<close>; the score is returned as computed, with no clamp.
\<close>

definition calculate_confidence :: "int \<Rightarrow> source list \<Rightarrow> exn + real \<times> string list" where
  "calculate_confidence current_year sources =
     (if sources = [] then Inr (0, [''No sources found''])
      else
        case assess_all current_year sources of
          Inl e \<Rightarrow> Inl e
        | Inr source_scores \<Rightarrow>
        let avg_score = sum_list source_scores / real (length source_scores)
        in case (if length source_scores > 1
                 then (case stdev source_scores of Inl e \<Rightarrow> Inl e | Inr sd \<Rightarrow> Inr (1 - sd))
                 else Inr (5 / 10)) of
             Inl e \<Rightarrow> Inl e
           | Inr consistency \<Rightarrow>
               let num_sources_score = min 1 (real (length sources) / 5);
                   confidence_score =
                     avg_score * (4 / 10) + consistency * (3 / 10) + num_sources_score * (3 / 10);
                   reasons = [];
                   reasons = (if avg_score > 7 / 10
                              then reasons @ [''High-quality sources found''] else reasons);
                   reasons = (if consistency > 7 / 10
                              then reasons @ [''Consistent information across sources''] else reasons);
                   reasons = (if num_sources_score > 6 / 10
                              then reasons @ [''Multiple sources ('' @ str_nat (length sources) @
                                              '') corroborate the information'']
                              else reasons)
               in Inr (confidence_score, reasons))"

subsection \<open>More string primitives\<close>

text \<open>
  \<^verbatim>\<open>str.isspace\<close> on ASCII: space, tab, newline, vertical tab, form feed, carriage
  return and the four separators \<^verbatim>\<open>\x1c\<close> to \<^verbatim>\<open>\x1f\<close>. It is the class that
  \<^verbatim>\<open>split()\<close>, \<^verbatim>\<open>strip()\<close> and the pattern \<^verbatim>\<open>\s\<close> use.
\<close>

definition is_space :: "char \<Rightarrow> bool" where
  "is_space c =
     (c \<in> set [CHR '' '', CHR 0x09, CHR 0x0A, CHR 0x0B, CHR 0x0C, CHR 0x0D,
                CHR 0x1C, CHR 0x1D, CHR 0x1E, CHR 0x1F])"

definition lower_char :: "char \<Rightarrow> char" where
  "lower_char c =
     (case map_of (zip ''ABCDEFGHIJKLMNOPQRSTUVWXYZ'' ''abcdefghijklmnopqrstuvwxyz'') c of
        None \<Rightarrow> c | Some l \<Rightarrow> l)"

definition upper_char :: "char \<Rightarrow> char" where
  "upper_char c =
     (case map_of (zip ''abcdefghijklmnopqrstuvwxyz'' ''ABCDEFGHIJKLMNOPQRSTUVWXYZ'') c of
        None \<Rightarrow> c | Some u \<Rightarrow> u)"

definition lower :: "string \<Rightarrow> string" where
  "lower s = map lower_char s"

definition upper :: "string \<Rightarrow> string" where
  "upper s = map upper_char s"

text \<open>\<^verbatim>\<open>t in s\<close> and \<^verbatim>\<open>s.startswith(t)\<close>.\<close>

definition is_substring :: "string \<Rightarrow> string \<Rightarrow> bool" where
  "is_substring t s = sublist t s"

definition startswith :: "string \<Rightarrow> string \<Rightarrow> bool" where
  "startswith s t = prefix t s"

text \<open>\<^verbatim>\<open>sep.join(xs)\<close>.\<close>

fun join :: "string \<Rightarrow> string list \<Rightarrow> string" where
  "join sep [] = []"
| "join sep [x] = x"
| "join sep (x # y # ys) = x @ sep @ join sep (y # ys)"

text \<open>
  \<^verbatim>\<open>s.split()\<close> with no argument: the maximal runs of non-space characters.
  \<open>split_ws_from cur s\<close> scans \<open>s\<close> with the word \<open>cur\<close> under construction.
\<close>

fun split_ws_from :: "string \<Rightarrow> string \<Rightarrow> string list" where
  "split_ws_from cur [] = (if cur = [] then [] else [cur])"
| "split_ws_from cur (c # cs) =
     (if is_space c then (if cur = [] then split_ws_from [] cs else cur # split_ws_from [] cs)
      else split_ws_from (cur @ [c]) cs)"

definition split_ws :: "string \<Rightarrow> string list" where
  "split_ws s = split_ws_from [] s"

text \<open>\<^verbatim>\<open>s.strip()\<close>.\<close>

definition strip :: "string \<Rightarrow> string" where
  "strip s = rev (dropWhile is_space (rev (dropWhile is_space s)))"

text \<open>
  \<^verbatim>\<open>s.replace(old, new)\<close>: every non-overlapping occurrence of \<open>old\<close>, leftmost first.
  \<open>replace_from old new skip s\<close> scans \<open>s\<close>; \<open>skip\<close> counts the characters of an
  occurrence already replaced that are still to be passed over.
\<close>

fun replace_from :: "string \<Rightarrow> string \<Rightarrow> nat \<Rightarrow> string \<Rightarrow> string" where
  "replace_from old new skip [] = []"
| "replace_from old new skip (c # cs) =
     (if 0 < skip then replace_from old new (skip - 1) cs
      else if prefix old (c # cs) then new @ replace_from old new (length old - 1) cs
      else c # replace_from old new 0 cs)"

definition replace :: "string \<Rightarrow> string \<Rightarrow> string \<Rightarrow> string" where
  "replace s old new =
     (if old = [] then new @ concat (map (\<lambda>c. c # new) s) else replace_from old new 0 s)"

subsection \<open>Result Scorer: relevance\<close>

text \<open>
  One entry of \<^verbatim>\<open>web.results\<close> in the provider's JSON answer: the keys
  \<^verbatim>\<open>'title'\<close>, \<^verbatim>\<open>'url'\<close>, \<^verbatim>\<open>'description'\<close> and \<^verbatim>\<open>'date_published'\<close>,
  each of which may be absent. Subscripting an absent key raises \<^verbatim>\<open>KeyError\<close>.
\<close>

record result_dict =
  rd_title :: "string option"
  rd_url :: "string option"
  rd_description :: "string option"
  rd_date_published :: "int option"

definition key_error :: "string \<Rightarrow> exn" where
  "key_error k = KeyError ([CHR 0x27] @ k @ [CHR 0x27])"

text \<open>
  \<^verbatim>\<open>_calculate_relevance(self, result, query_terms)\<close>. A Python set is given by the
  list of its elements; \<open>remdups\<close> is the set comprehension. The order in which a set
  is iterated, which \<^verbatim>\<open>' '.join\<close> observes, is not fixed by Python: here it is the list
  order.
\<close>

definition calculate_relevance :: "result_dict \<Rightarrow> string list \<Rightarrow> exn + real" where
  "calculate_relevance result query_terms =
     (case rd_title result of
        None \<Rightarrow> Inl (key_error ''title'')
      | Some title_s \<Rightarrow>
     (case rd_description result of
        None \<Rightarrow> Inl (key_error ''description'')
      | Some description_s \<Rightarrow>
          let text = lower (title_s @ '' '' @ description_s);
              query_terms_lower = remdups (map lower query_terms);
              term_count = length (filter (\<lambda>term. is_substring term text) query_terms_lower);
              relevance = (if query_terms_lower \<noteq> []
                           then real term_count / real (length query_terms_lower) else 0);
              relevance = (if is_substring (join '' '' query_terms_lower) text
                           then relevance * (15 / 10) else relevance)
          in Inr (min relevance 1)))"

subsection \<open>Search Client: construction and the retried request\<close>

text \<open>
  The attributes that \<^verbatim>\<open>WebSearch.__init__\<close> sets. \<open>environ\<close> is the process
  environment read by \<^verbatim>\<open>os.getenv\<close>; the test \<^verbatim>\<open>if not self.brave_api_key\<close>
  rejects an absent key and an empty one.
\<close>

record WebSearch =
  brave_api_key :: string
  timeout :: real
  max_retries :: nat
  concurrent_limit :: nat

definition WebSearch_init :: "(string \<rightharpoonup> string) \<Rightarrow> exn + WebSearch" where
  "WebSearch_init environ =
     (let key = environ ''BRAVE_API_KEY''
      in if key = None \<or> key = Some []
         then Inl (ValueError ''BRAVE_API_KEY environment variable is required'')
         else Inr \<lparr>brave_api_key = (case key of None \<Rightarrow> [] | Some k \<Rightarrow> k),
                   timeout = 10, max_retries = 2, concurrent_limit = 3\<rparr>)"

text \<open>
  What one \<^verbatim>\<open>client.get\<close> followed by \<^verbatim>\<open>raise_for_status()\<close> and \<^verbatim>\<open>json()\<close> can
  do: deliver the JSON body (kept as the list under \<^verbatim>\<open>web.results\<close>, empty when
  either key is missing), raise \<^verbatim>\<open>TimeoutException\<close>, raise an \<^verbatim>\<open>HTTPError\<close> that
  carries the status code of the response, or raise anything else, which neither
  \<^verbatim>\<open>except\<close> clause catches. The provider's answer to the request of attempt \<open>i\<close> is
  \<open>responses i\<close>.
\<close>

datatype response =
    Success "result_dict list"
  | Timeout string
  | HTTPError nat string
  | Failure exn

text \<open>What \<^verbatim>\<open>_make_request\<close> does besides returning: requests and sleeps, in order.\<close>

datatype event = Request nat | Sleep nat

text \<open>
  \<^verbatim>\<open>_make_request\<close>: the loop \<^verbatim>\<open>for attempt in range(self.max_retries)\<close> from
  \<open>attempt\<close> on. A function that leaves the loop without \<^verbatim>\<open>return\<close> returns
  \<^verbatim>\<open>None\<close>: the result \<open>Inr None\<close>.
\<close>

function make_request_from ::
  "nat \<Rightarrow> (nat \<Rightarrow> response) \<Rightarrow> nat \<Rightarrow> (exn + result_dict list option) \<times> event list" where
  "make_request_from retries responses attempt =
     (if retries \<le> attempt then (Inr None, [])
      else
        (case responses attempt of
           Success body \<Rightarrow> (Inr (Some body), [Request attempt])
         | Timeout msg \<Rightarrow>
             if attempt = retries - 1 then (Inl (TimeoutException msg), [Request attempt])
             else
               (let (res, evs) = make_request_from retries responses (attempt + 1)
                in (res, Request attempt # Sleep (1 * (attempt + 1)) # evs))
         | HTTPError status_code msg \<Rightarrow>
             if status_code = 429 then
               (let (res, evs) = make_request_from retries responses (attempt + 1)
                in (res, Request attempt # Sleep (2 * (attempt + 1)) # evs))
             else (Inl (HTTPStatusError status_code msg), [Request attempt])
         | Failure e \<Rightarrow> (Inl e, [Request attempt])))"
  by pat_completeness auto
termination
  by (relation "measure (\<lambda>(retries, responses, attempt). retries - attempt)") auto

declare make_request_from.simps [simp del]

definition make_request ::
  "WebSearch \<Rightarrow> (nat \<Rightarrow> response) \<Rightarrow> (exn + result_dict list option) \<times> event list" where
  "make_request self responses = make_request_from (max_retries self) responses 0"

subsection \<open>Search Client: the search\<close>

record SearchMetrics =
  total_time :: real
  cache_hit :: bool
  results_count :: nat
  error :: "string option"

record SearchResult =
  title :: string
  url :: string
  description :: string
  query_time :: real
  relevance_score :: real

definition sanitize_query :: "string \<Rightarrow> string" where
  "sanitize_query query = join '' '' (split_ws query)"

text \<open>\<^verbatim>\<open>_get_cached_results\<close>: the body is \<^verbatim>\<open>return None\<close>, whatever the query.\<close>

definition get_cached_results :: "string \<Rightarrow> SearchResult list option" where
  "get_cached_results query = None"

definition modifiers :: "(string \<times> string list) list" where
  "modifiers =
     [(''fact check'', [''fact check'', ''verify'', ''evidence'']),
      (''research'', [''research paper'', ''academic'', ''study'']),
      (''technical'', [''technical documentation'', ''api'', ''implementation'']),
      (''news'', [''news'', ''recent'', ''current events'']),
      (''analysis'', [''analysis'', ''insights'', ''expert opinion''])]"

definition enhance_query :: "string \<Rightarrow> string \<Rightarrow> string" where
  "enhance_query query role_context =
     (let role_terms = lower role_context;
          query_modifiers =
            concat (map (\<lambda>(key, terms).
                           if list_ex (\<lambda>term. is_substring term role_terms) terms
                           then take 1 terms else [])
                        modifiers)
      in if query_modifiers \<noteq> [] then join '' '' query_modifiers @ '' '' @ query else query)"

text \<open>
  What a call of \<^verbatim>\<open>search\<close> reads from outside: \<open>clock k\<close> is the value of the
  \<open>k\<close>-th call of \<^verbatim>\<open>time.time()\<close> made by this call (the first has \<open>k = 0\<close>),
  \<open>responses\<close> the provider's answers, \<open>year_now\<close> is \<^verbatim>\<open>datetime.now().year\<close>.
\<close>

record environment =
  clock :: "nat \<Rightarrow> real"
  responses :: "nat \<Rightarrow> response"
  year_now :: int

text \<open>
  The loop over the provider's results. It carries the two lists built so far and the
  number \<open>k\<close> of clock readings taken so far; a raised exception comes with the number
  of readings taken before it.
\<close>

fun process_results ::
  "environment \<Rightarrow> real \<Rightarrow> string list \<Rightarrow> result_dict list \<Rightarrow> SearchResult list \<Rightarrow> source list \<Rightarrow> nat
     \<Rightarrow> exn \<times> nat + SearchResult list \<times> source list \<times> nat" where
  "process_results env start_time query_terms [] search_results sources k =
     Inr (search_results, sources, k)"
| "process_results env start_time query_terms (result # rest) search_results sources k =
     (case calculate_relevance result query_terms of
        Inl e \<Rightarrow> Inl (e, k)
      | Inr relevance \<Rightarrow>
     (case rd_title result of
        None \<Rightarrow> Inl (key_error ''title'', k)
      | Some title_s \<Rightarrow>
     (case rd_url result of
        None \<Rightarrow> Inl (key_error ''url'', k)
      | Some url_s \<Rightarrow>
     (case rd_description result of
        None \<Rightarrow> Inl (key_error ''description'', k)
      | Some description_s \<Rightarrow>
          let search_results = search_results @
                [\<lparr>title = title_s, url = url_s, description = description_s,
                  query_time = clock env k - start_time, relevance_score = relevance\<rparr>];
              k = k + 1;
              parts = split_on CHR ''/'' url_s
          in if length parts \<le> 2 then Inl (IndexError ''list index out of range'', k)
             else
               process_results env start_time query_terms rest search_results
                 (sources @
                    [\<lparr>domain = Some (parts ! 2),
                      publication_year =
                        Some (case rd_date_published result of
                                None \<Rightarrow> year_now env | Some y \<Rightarrow> y),
                      source_type = Some ''unknown''\<rparr>])
                 k))))"

text \<open>
  The \<^verbatim>\<open>try\<close> block of \<^verbatim>\<open>search\<close>, entered with the initial \<open>metrics\<close> after the
  first clock reading. A raised exception comes with the metrics as mutated so far
  and the number of clock readings taken. The sort is Python's stable sort with
  \<^verbatim>\<open>reverse=True\<close>, which keeps equal keys in their original order.
\<close>

definition search_try ::
  "WebSearch \<Rightarrow> environment \<Rightarrow> string \<Rightarrow> string \<Rightarrow> real \<Rightarrow> SearchMetrics
     \<Rightarrow> exn \<times> SearchMetrics \<times> nat + SearchResult list \<times> SearchMetrics \<times> real \<times> string list" where
  "search_try self env query role_context start_time metrics =
     (let cached_results = get_cached_results query
      in if cached_results \<noteq> None \<and> cached_results \<noteq> Some []
         then
           (let cached = (case cached_results of None \<Rightarrow> [] | Some rs \<Rightarrow> rs);
                metrics = metrics\<lparr>cache_hit := True\<rparr>;
                metrics = metrics\<lparr>total_time := clock env 1 - start_time\<rparr>;
                metrics = metrics\<lparr>results_count := length cached\<rparr>
            in Inr (cached, metrics, 0, [''No confidence assessment'']))
         else
           (let enhanced_query = enhance_query query role_context;
                sanitized_query = sanitize_query enhanced_query;
                query_terms = remdups (split_ws sanitized_query)
            in case fst (make_request self (responses env)) of
                 Inl e \<Rightarrow> Inl (e, metrics, 1)
               | Inr None \<Rightarrow>
                   Inl (AttributeError
                          ([CHR 0x27] @ ''NoneType'' @ [CHR 0x27] @ '' object has no attribute '' @
                           [CHR 0x27] @ ''get'' @ [CHR 0x27]), metrics, 1)
               | Inr (Some results) \<Rightarrow>
                   (case process_results env start_time query_terms results [] [] 1 of
                      Inl (e, k) \<Rightarrow> Inl (e, metrics, k)
                    | Inr (search_results, sources, k) \<Rightarrow>
                        let search_results =
                              sort_key (\<lambda>x. - relevance_score x) search_results;
                            metrics = metrics\<lparr>total_time := clock env k - start_time\<rparr>;
                            metrics = metrics\<lparr>results_count := length search_results\<rparr>
                        in (case calculate_confidence (year_now env) sources of
                              Inl e \<Rightarrow> Inl (e, metrics, k + 1)
                            | Inr (confidence_score, confidence_reasons) \<Rightarrow>
                                Inr (search_results, metrics, confidence_score,
                                     confidence_reasons)))))"

text \<open>The metrics that \<^verbatim>\<open>search\<close> starts with.\<close>

definition initial_metrics :: SearchMetrics where
  "initial_metrics = \<lparr>total_time = 0, cache_hit = False, results_count = 0, error = None\<rparr>"

text \<open>
  \<^verbatim>\<open>search(self, query, role_context)\<close>: the \<^verbatim>\<open>try\<close> block under
  \<^verbatim>\<open>except Exception\<close>. The handler reads the clock once more.
\<close>

definition search ::
  "WebSearch \<Rightarrow> environment \<Rightarrow> string \<Rightarrow> string
     \<Rightarrow> SearchResult list \<times> SearchMetrics \<times> real \<times> string list" where
  "search self env query role_context =
     (let start_time = clock env 0;
          metrics = initial_metrics
      in case search_try self env query role_context start_time metrics of
           Inr result \<Rightarrow> result
         | Inl (e, metrics, k) \<Rightarrow>
             (let metrics = metrics\<lparr>error := Some (str_exn e)\<rparr>;
                  metrics = metrics\<lparr>total_time := clock env k - start_time\<rparr>
              in ([], metrics, 0, [''No confidence assessment''])))"

subsection \<open>Completion Client: construction\<close>

text \<open>
  \<^verbatim>\<open>LLMHandler.__init__\<close> makes no test of its own. It calls two constructors of
  packages outside the repository, one after the other: \<^verbatim>\<open>AsyncOpenAI\<close> of
  \<^verbatim>\<open>openai\<close>, with the base URL and \<^verbatim>\<open>os.getenv('GLHF_API_KEY')\<close>, which is
  \<^verbatim>\<open>None\<close> for an absent variable; then \<^verbatim>\<open>OpenAIModel\<close> of \<^verbatim>\<open>pydantic_ai\<close>, with
  the model name and the client just made. Either may raise, and what it raises leaves
  \<^verbatim>\<open>__init__\<close>. Both constructors are arguments here.
\<close>

record ('c, 'm) LLMHandler =
  client :: 'c
  model :: 'm

definition LLMHandler_init ::
  "(string \<Rightarrow> string option \<Rightarrow> exn + 'c) \<Rightarrow> (string \<Rightarrow> 'c \<Rightarrow> exn + 'm)
     \<Rightarrow> (string \<rightharpoonup> string) \<Rightarrow> exn + ('c, 'm) LLMHandler" where
  "LLMHandler_init AsyncOpenAI OpenAIModel environ =
     (case AsyncOpenAI ''https://glhf.chat/api/openai/v1'' (environ ''GLHF_API_KEY'') of
        Inl e \<Rightarrow> Inl e
      | Inr c \<Rightarrow>
          (case OpenAIModel
                  (dict_get environ ''LLM_MODEL'' ''hf:meta-llama/Llama-3.3-70B-Instruct'') c of
             Inl e \<Rightarrow> Inl e
           | Inr m \<Rightarrow> Inr \<lparr>client = c, model = m\<rparr>))"

text \<open>
  The constructor of the \<^verbatim>\<open>openai\<close> package as that package documents it: a key that
  is \<^verbatim>\<open>None\<close> is replaced by the environment variable \<^verbatim>\<open>OPENAI_API_KEY\<close>, and only
  when that is absent too does the constructor raise.
\<close>

record openai_client =
  base_url :: string
  api_key :: string

definition openai_AsyncOpenAI ::
  "(string \<rightharpoonup> string) \<Rightarrow> string \<Rightarrow> string option \<Rightarrow> exn + openai_client" where
  "openai_AsyncOpenAI environ endpoint key =
     (let key = (case key of None \<Rightarrow> environ ''OPENAI_API_KEY'' | Some k \<Rightarrow> Some k)
      in case key of
           None \<Rightarrow> Inl (OpenAIError ''The api_key client option must be set'')
         | Some k \<Rightarrow> Inr \<lparr>base_url = endpoint, api_key = k\<rparr>)"

text \<open>
  The constructor \<^verbatim>\<open>OpenAIModel(model_name, openai_client=...)\<close> of the release of
  \<^verbatim>\<open>pydantic_ai\<close> that has this keyword: given a client, it keeps the name and the
  client and reads no credential.
\<close>

record openai_model =
  model_name :: string
  model_client :: openai_client

definition pydantic_ai_OpenAIModel :: "string \<Rightarrow> openai_client \<Rightarrow> exn + openai_model" where
  "pydantic_ai_OpenAIModel name c = Inr \<lparr>model_name = name, model_client = c\<rparr>"

subsection \<open>Roles: the evidence list\<close>

text \<open>
  The dictionaries \<^verbatim>\<open>{'title': ..., 'url': ..., 'description': ...}\<close> that
  \<^verbatim>\<open>process_query\<close> appends to \<^verbatim>\<open>evidence_points\<close>.
\<close>

record evidence_point =
  ep_title :: string
  ep_url :: string
  ep_description :: string

definition evidence_of :: "SearchResult \<Rightarrow> evidence_point" where
  "evidence_of result =
     \<lparr>ep_title = replace (title result) '' - Wikipedia'' [],
      ep_url = url result,
      ep_description = description result\<rparr>"

text \<open>
  The loop \<^verbatim>\<open>for result in search_results\<close> of \<^verbatim>\<open>process_query\<close>, with its two
  variables \<^verbatim>\<open>seen_urls\<close> and \<^verbatim>\<open>evidence_points\<close>. The loop is the same, line for
  line, in \<^verbatim>\<open>fact_checker.process_query\<close> and \<^verbatim>\<open>research_assistant.process_query\<close>.
\<close>

fun collect_evidence ::
  "SearchResult list \<Rightarrow> string set \<Rightarrow> evidence_point list \<Rightarrow> evidence_point list" where
  "collect_evidence [] seen_urls evidence_points = evidence_points"
| "collect_evidence (result # rest) seen_urls evidence_points =
     (if url result \<in> seen_urls then collect_evidence rest seen_urls evidence_points
      else collect_evidence rest (insert (url result) seen_urls)
             (evidence_points @ [evidence_of result]))"

definition fact_checker_evidence :: "SearchResult list \<Rightarrow> evidence_point list" where
  "fact_checker_evidence search_results = collect_evidence search_results {} []"

definition research_assistant_evidence :: "SearchResult list \<Rightarrow> evidence_point list" where
  "research_assistant_evidence search_results = collect_evidence search_results {} []"

text \<open>The numbered markdown list that \<^verbatim>\<open>process_query\<close> appends to its output.\<close>

fun render_evidence :: "nat \<Rightarrow> evidence_point list \<Rightarrow> string" where
  "render_evidence i [] = []"
| "render_evidence i (point # rest) =
     str_nat i @ ''. **['' @ ep_title point @ '']('' @ ep_url point @ '')**'' @ [CHR 0x0A] @
     ''   _'' @ ep_description point @ ''_'' @ [CHR 0x0A, CHR 0x0A] @
     render_evidence (i + 1) rest"

text \<open>
  The property to compare with: the results that are the first with their URL, in the
  order of the input. Position \<open>i\<close> is kept when no earlier position has its URL.
\<close>

definition first_seen :: "SearchResult list \<Rightarrow> SearchResult list" where
  "first_seen results =
     map (\<lambda>i. results ! i)
       (filter (\<lambda>i. url (results ! i) \<notin> set (map url (take i results))) [0..<length results])"

text \<open>
  The same by recursion, for the proof: the results whose URL is not in \<open>seen\<close> and
  has not occurred before.
\<close>

fun unseen :: "string set \<Rightarrow> SearchResult list \<Rightarrow> SearchResult list" where
  "unseen seen [] = []"
| "unseen seen (r # rs) =
     (if url r \<in> seen then unseen seen rs else r # unseen (insert (url r) seen) rs)"

subsection \<open>Fact checker: parsing the completion\<close>

text \<open>The dictionary \<^verbatim>\<open>sections\<close> of \<^verbatim>\<open>fact_checker.parse_llm_response\<close>.\<close>

record sections =
  sec_verdict :: string
  sec_explanation :: string
  sec_context :: string
  sec_references :: "string list"
  sec_confidence_level :: string
  sec_opinion_warning :: string

text \<open>
  The state of the loop over the lines: the dictionary, \<^verbatim>\<open>current_section\<close>,
  \<^verbatim>\<open>section_content\<close>, and whether \<^verbatim>\<open>sections['references']\<close> is the very list object
  that \<^verbatim>\<open>section_content\<close> names. The assignment
  \<^verbatim>\<open>sections['references'] = section_content\<close> makes it so, \<^verbatim>\<open>section_content = []\<close>
  ends it, and while it holds \<^verbatim>\<open>section_content.append(line)\<close> changes both.
\<close>

record parse_state =
  ps_sections :: sections
  current_section :: "string option"
  section_content :: "string list"
  references_aliased :: bool

definition parse_line :: "parse_state \<Rightarrow> string \<Rightarrow> parse_state" where
  "parse_line st raw_line =
     (let line = strip raw_line
      in if line = [] then st
         else
           let st =
             (if startswith line ''VERDICT:'' then
                st\<lparr>current_section := Some ''verdict'',
                   ps_sections := (ps_sections st)
                     \<lparr>sec_verdict := strip (replace line ''VERDICT:'' [])\<rparr>\<rparr>
              else if startswith line ''EXPLANATION:'' then
                st\<lparr>current_section := Some ''explanation'', section_content := [],
                   references_aliased := False\<rparr>
              else if startswith line ''CONTEXT:'' then
                st\<lparr>current_section := Some ''context'', section_content := [],
                   references_aliased := False\<rparr>
              else if startswith line ''REFERENCES:'' then
                st\<lparr>current_section := Some ''references'', section_content := [],
                   references_aliased := False\<rparr>
              else if startswith line ''CONFIDENCE LEVEL:'' then
                st\<lparr>current_section := Some ''confidence_level'',
                   ps_sections := (ps_sections st)
                     \<lparr>sec_confidence_level := strip (replace line ''CONFIDENCE LEVEL:'' [])\<rparr>\<rparr>
              else if startswith line ''OPINION WARNING:'' then
                st\<lparr>current_section := Some ''opinion_warning'',
                   ps_sections := (ps_sections st)
                     \<lparr>sec_opinion_warning := strip (replace line ''OPINION WARNING:'' [])\<rparr>\<rparr>
              else if current_section st \<noteq> None then
                st\<lparr>section_content := section_content st @ [line],
                   ps_sections :=
                     (if references_aliased st
                      then (ps_sections st)\<lparr>sec_references := section_content st @ [line]\<rparr>
                      else ps_sections st)\<rparr>
              else st)
           in if section_content st \<noteq> [] then
                (if current_section st = Some ''explanation'' then
                   st\<lparr>ps_sections := (ps_sections st)
                        \<lparr>sec_explanation := join [CHR 0x0A] (section_content st)\<rparr>\<rparr>
                 else if current_section st = Some ''context'' then
                   st\<lparr>ps_sections := (ps_sections st)
                        \<lparr>sec_context := join [CHR 0x0A] (section_content st)\<rparr>\<rparr>
                 else if current_section st = Some ''references'' then
                   st\<lparr>ps_sections := (ps_sections st)
                        \<lparr>sec_references := section_content st\<rparr>,
                      references_aliased := True\<rparr>
                 else st)
              else st)"

definition parse_llm_response :: "string \<Rightarrow> sections" where
  "parse_llm_response response =
     ps_sections
       (foldl parse_line
          \<lparr>ps_sections =
             \<lparr>sec_verdict = [], sec_explanation = [], sec_context = [], sec_references = [],
              sec_confidence_level = [], sec_opinion_warning = []\<rparr>,
           current_section = None, section_content = [], references_aliased = False\<rparr>
          (split_on CHR 0x0A response))"

subsection \<open>Fact checker: formatting the completion\<close>

text \<open>
  \<^verbatim>\<open>re.search(HEADER + r'\s*(.+?)(?=\n|$)', s)\<close>, with or without \<^verbatim>\<open>re.DOTALL\<close>, and
  the text of its group 1, for a literal \<open>HEADER\<close>.

  After the header the greedy \<^verbatim>\<open>\s*\<close> first takes the whole run of white space and
  gives characters back one at a time. Where it stops, \<^verbatim>\<open>.+?\<close> needs one character
  (not a newline, unless \<^verbatim>\<open>DOTALL\<close>) and then takes as few more as it can until the
  look-ahead holds, that is, up to the next newline or the end of the text:
  \<open>lazy_line\<close>. \<open>backtrack_spaces dotall rest k\<close> tries \<^verbatim>\<open>\s*\<close> with \<open>k\<close>, then
  \<open>k - 1\<close>, down to no characters of \<open>rest\<close>; \<open>match_header_at\<close> is the pattern at
  the start of the text; \<open>re_search_header\<close> tries the start positions from the left.
\<close>

definition lazy_line :: "bool \<Rightarrow> string \<Rightarrow> string option" where
  "lazy_line dotall s =
     (case s of
        [] \<Rightarrow> None
      | c # cs \<Rightarrow>
          if \<not> dotall \<and> c = CHR 0x0A then None
          else Some (c # takeWhile (\<lambda>x. x \<noteq> CHR 0x0A) cs))"

fun backtrack_spaces :: "bool \<Rightarrow> string \<Rightarrow> nat \<Rightarrow> string option" where
  "backtrack_spaces dotall rest 0 = lazy_line dotall rest"
| "backtrack_spaces dotall rest (Suc k) =
     (case lazy_line dotall (drop (Suc k) rest) of
        Some g \<Rightarrow> Some g
      | None \<Rightarrow> backtrack_spaces dotall rest k)"

definition match_header_at :: "bool \<Rightarrow> string \<Rightarrow> string \<Rightarrow> string option" where
  "match_header_at dotall header s =
     (if prefix header s
      then (let rest = drop (length header) s
            in backtrack_spaces dotall rest (length (takeWhile is_space rest)))
      else None)"

fun re_search_header :: "bool \<Rightarrow> string \<Rightarrow> string \<Rightarrow> string option" where
  "re_search_header dotall header [] = match_header_at dotall header []"
| "re_search_header dotall header (c # cs) =
     (case match_header_at dotall header (c # cs) of
        Some g \<Rightarrow> Some g
      | None \<Rightarrow> re_search_header dotall header cs)"

text \<open>
  \<^verbatim>\<open>re.search(r'- (https?://\S+)', ref)\<close> and the text of its group 1: the scheme and
  the longest run of characters that are not white space, which must not be empty.
\<close>

definition match_url_at :: "string \<Rightarrow> string option" where
  "match_url_at s =
     (if prefix ''- https://'' s then
        (let tail = takeWhile (\<lambda>c. \<not> is_space c) (drop 10 s)
         in if tail = [] then None else Some (''https://'' @ tail))
      else if prefix ''- http://'' s then
        (let tail = takeWhile (\<lambda>c. \<not> is_space c) (drop 9 s)
         in if tail = [] then None else Some (''http://'' @ tail))
      else None)"

fun re_search_url :: "string \<Rightarrow> string option" where
  "re_search_url [] = match_url_at []"
| "re_search_url (c # cs) =
     (case match_url_at (c # cs) of Some g \<Rightarrow> Some g | None \<Rightarrow> re_search_url cs)"

text \<open>The loop \<^verbatim>\<open>for i, ref in enumerate(references, 1)\<close>.\<close>

fun format_references :: "nat \<Rightarrow> string list \<Rightarrow> string list" where
  "format_references i [] = []"
| "format_references i (raw_ref # rest) =
     (let ref = strip raw_ref
      in (if ref \<noteq> [] then
            (case re_search_url ref of
               Some link \<Rightarrow>
                 (let source_name = strip (hd (split_on CHR ''-'' ref))
                  in [str_nat i @ ''. '' @ source_name @ '' - <a href='' @ [CHR 0x22] @ link @
                      [CHR 0x22] @ '' target='' @ [CHR 0x22] @ ''_blank'' @ [CHR 0x22] @ ''>'' @
                      link @ ''</a><br>''])
             | None \<Rightarrow> [str_nat i @ ''. '' @ ref @ ''<br>''])
          else [])
         @ format_references (i + 1) rest)"

text \<open>
  The \<^verbatim>\<open>try\<close> block of \<^verbatim>\<open>fact_checker.format_response\<close>. None of its steps can raise
  on a string: the searches return a match or \<^verbatim>\<open>None\<close>, a match object is true, and
  \<^verbatim>\<open>split\<close> never returns an empty list. The warning sign is the three bytes of its
  UTF-8 encoding.
\<close>

definition format_response_try :: "string \<Rightarrow> exn + string" where
  \<open>format_response_try raw_response =
     (let verdict_match = re_search_header False ''VERDICT:'' raw_response;
          confidence_match = re_search_header False ''CONFIDENCE LEVEL:'' raw_response;
          explanation_match = re_search_header False ''EXPLANATION:'' raw_response;
          context_match = re_search_header False ''CONTEXT:'' raw_response;
          references_match = re_search_header True ''REFERENCES:'' raw_response;
          formatted_response = [];
          verdict = (case verdict_match of Some g \<Rightarrow> strip g | None \<Rightarrow> ''UNKNOWN'');
          formatted_response =
            (if upper verdict = ''FALSE''
             then formatted_response @
               [''<div class="error-message" style="display: flex; align-items: center; gap: 8px; margin-bottom: 16px;"><span style="color: #FF4B4B; font-size: 24px;">'' @
                [CHR 0xE2, CHR 0x9A, CHR 0xA0] @
                ''</span><span style="color: #FF4B4B;">'' @
                hd (split_on CHR 0x0A raw_response) @ ''</span></div>'']
             else formatted_response);
          formatted_response = formatted_response @
            [''<div style="margin: 16px 0;"><strong>'' @ verdict @ ''</strong></div>''];
          formatted_response =
            (case explanation_match of
               Some g \<Rightarrow> formatted_response @
                 [''<h2 style="margin: 24px 0 16px;">Explanation</h2>'',
                  ''<div style="margin-bottom: 16px;">'' @ strip g @ ''</div>'']
             | None \<Rightarrow> formatted_response);
          formatted_response =
            (case context_match of
               Some g \<Rightarrow> formatted_response @
                 [''<h2 style="margin: 24px 0 16px;">Additional Context</h2>'',
                  ''<div style="margin-bottom: 16px;">'' @ strip g @ ''</div>'']
             | None \<Rightarrow> formatted_response);
          formatted_response =
            (case references_match of
               Some g \<Rightarrow> formatted_response @
                 [''<h2 style="margin: 24px 0 16px;">References</h2>''] @
                 format_references 1 (split_on CHR 0x0A (strip g))
             | None \<Rightarrow> formatted_response)
      in Inr (join [CHR 0x0A] formatted_response))\<close>

text \<open>
  \<^verbatim>\<open>format_response\<close>: the \<^verbatim>\<open>try\<close> block under \<^verbatim>\<open>except Exception\<close>, whose
  handler wraps the raw text.
\<close>

definition format_response :: "string \<Rightarrow> string" where
  "format_response raw_response =
     (case format_response_try raw_response of
        Inr formatted \<Rightarrow> formatted
      | Inl e \<Rightarrow> ''<pre>'' @ raw_response @ ''</pre>'')"

text \<open>The block that renders a verdict that was not found.\<close>

definition unknown_block :: string where
  \<open>unknown_block = ''<div style="margin: 16px 0;"><strong>UNKNOWN</strong></div>''\<close>

subsection \<open>Concrete inputs\<close>

text \<open>Inputs at which the properties below are exercised.\<close>

definition edu_source :: source where
  "edu_source = \<lparr>domain = Some ''mit.edu'', publication_year = None, source_type = None\<rparr>"

definition old_blog_source :: source where
  "old_blog_source =
     \<lparr>domain = Some ''blog.example'', publication_year = Some 2004, source_type = Some ''blog''\<rparr>"

text \<open>A source dated \<open>10 ^ 400\<close> years before the common era.\<close>

definition ancient_source :: source where
  "ancient_source =
     \<lparr>domain = Some ''x.org'', publication_year = Some (- (10 ^ 400)), source_type = None\<rparr>"

definition default_client :: WebSearch where
  "default_client =
     \<lparr>brave_api_key = ''secret'', timeout = 10, max_retries = 2, concurrent_limit = 3\<rparr>"

definition rate_limited :: "nat \<Rightarrow> response" where
  "rate_limited attempt = HTTPError 429 ''Too Many Requests''"

definition timing_out :: "nat \<Rightarrow> response" where
  "timing_out attempt = Timeout ''timed out''"

definition server_error :: "nat \<Rightarrow> response" where
  "server_error attempt = HTTPError 500 ''Internal Server Error''"

definition rate_limited_env :: environment where
  "rate_limited_env = \<lparr>clock = real, responses = rate_limited, year_now = 2024\<rparr>"

definition timing_out_env :: environment where
  "timing_out_env = \<lparr>clock = real, responses = timing_out, year_now = 2024\<rparr>"

text \<open>A wall clock that is set back after the first reading.\<close>

definition stepped_back_clock :: "nat \<Rightarrow> real" where
  "stepped_back_clock k = (if k = 0 then 5 else 3)"

definition stepped_back_env :: environment where
  "stepped_back_env = \<lparr>clock = stepped_back_clock, responses = timing_out, year_now = 2024\<rparr>"

definition abc_result :: result_dict where
  "abc_result =
     \<lparr>rd_title = Some ''abc'', rd_url = None, rd_description = Some [], rd_date_published = None\<rparr>"

definition other_provider_environ :: "string \<rightharpoonup> string" where
  "other_provider_environ = [''OPENAI_API_KEY'' \<mapsto> ''sk-other'']"

text \<open>The response text of the parsing example, line by line.\<close>

definition synthetic_response :: string where
  "synthetic_response =
     ''VERDICT: TRUE'' @ [CHR 0x0A] @
     ''EXPLANATION: because X'' @ [CHR 0x0A] @
     ''CONTEXT: extra'' @ [CHR 0x0A] @
     ''REFERENCES:'' @ [CHR 0x0A] @
     ''- http://a.example'' @ [CHR 0x0A] @
     ''- http://b.example''"

definition result_a :: SearchResult where
  "result_a = \<lparr>title = ''Coffee - Wikipedia'', url = ''https://en.wikipedia.org/wiki/Coffee'',
               description = ''A brewed drink'', query_time = 1, relevance_score = 1\<rparr>"

definition result_b :: SearchResult where
  "result_b = \<lparr>title = ''Commodities'', url = ''https://example.org/trade'',
               description = ''Traded goods'', query_time = 2, relevance_score = 1 / 2\<rparr>"

definition result_a_again :: SearchResult where
  "result_a_again = \<lparr>title = ''Coffee (mirror)'', url = ''https://en.wikipedia.org/wiki/Coffee'',
               description = ''The same page'', query_time = 3, relevance_score = 1 / 4\<rparr>"

subsection \<open>Facts about the primitives\<close>

lemma split_on_not_Nil: "split_on sep s \<noteq> []"
  by (induction s) (auto split: list.splits)

lemma reputable_domains_range:
  "3 / 10 \<le> dict_get reputable_domains k (3 / 10) \<and> dict_get reputable_domains k (3 / 10) \<le> 9 / 10"
  by (simp add: dict_get_def reputable_domains_def)

lemma source_types_range:
  "2 / 10 \<le> dict_get source_types k (2 / 10) \<and> dict_get source_types k (2 / 10) \<le> 9 / 10"
  by (simp add: dict_get_def source_types_def)

lemma quality_sum_lower:
  fixes d t f :: real
  assumes "3 / 10 \<le> d" and "2 / 10 \<le> t" and "0 \<le> f"
  shows "1 / 4 \<le> (d + f * (3 / 10) + t) / 2"
  using assms by argo

text \<open>A quality score that is returned lies between a quarter and one.\<close>

lemma assess_source_quality_range:
  assumes "assess_source_quality cy src = Inr q"
  shows "1 / 4 \<le> q \<and> q \<le> 1"
proof -
  let ?d = "dict_get reputable_domains
              (last (split_on CHR ''.'' (case domain src of None \<Rightarrow> [] | Some d \<Rightarrow> d))) (3 / 10)"
  let ?t = "dict_get source_types
              (case source_type src of None \<Rightarrow> ''unknown'' | Some t \<Rightarrow> t) (2 / 10)"
  let ?y = "cy - (case publication_year src of None \<Rightarrow> cy | Some y \<Rightarrow> y)"
  from assms obtain tenths where q: "q = min 1 ((?d + max 0 (1 - tenths) * (3 / 10) + ?t) / 2)"
    by (auto simp: assess_source_quality_def Let_def split: sum.splits)
  have d: "3 / 10 \<le> ?d" using reputable_domains_range by blast
  have t: "2 / 10 \<le> ?t" using source_types_range by blast
  have f: "0 \<le> max 0 (1 - tenths)" by simp
  have "1 / 4 \<le> (?d + max 0 (1 - tenths) * (3 / 10) + ?t) / 2"
    using d t f by (rule quality_sum_lower)
  then show ?thesis unfolding q by simp
qed

text \<open>The division is the only step that raises: within its range a score is returned.\<close>

lemma assess_source_quality_returns:
  assumes "\<bar>real_of_int (cy - (case publication_year src of None \<Rightarrow> cy | Some y \<Rightarrow> y)) / 10\<bar>
             < float_overflow_bound"
  shows "\<exists>q. assess_source_quality cy src = Inr q"
  using assms by (simp add: assess_source_quality_def int_true_div_def Let_def)

lemma float_overflow_bound_pos: "0 < float_overflow_bound"
  by (simp add: float_overflow_bound_def)

subsection \<open>The sample standard deviation of scores in the unit interval\<close>

text \<open>
  For scores \<open>x\<close> with \<open>0 \<le> x \<le> 1\<close> the squared deviations from the mean sum to at
  most \<open>n / 4\<close>, because \<open>x\<^sup>2 \<le> x\<close>; so the sample variance of two or more scores is at
  most 1.
\<close>

lemma sum_sq_dev:
  fixes m :: real
  shows "sum_list (map (\<lambda>x. (x - m)\<^sup>2) xs) =
         sum_list (map (\<lambda>x. x\<^sup>2) xs) - 2 * m * sum_list xs + real (length xs) * m\<^sup>2"
  by (induction xs) (simp_all add: algebra_simps power2_eq_square)

lemma sum_sq_le_sum:
  fixes xs :: "real list"
  assumes "\<forall>x\<in>set xs. 0 \<le> x \<and> x \<le> 1"
  shows "sum_list (map (\<lambda>x. x\<^sup>2) xs) \<le> sum_list xs"
  using assms
proof (induction xs)
  case Nil
  then show ?case by simp
next
  case (Cons x xs)
  have "x\<^sup>2 \<le> x" using Cons.prems by (simp add: power2_eq_square mult_left_le)
  moreover have "sum_list (map (\<lambda>x. x\<^sup>2) xs) \<le> sum_list xs" using Cons by simp
  ultimately show ?case by simp
qed

lemma sq_dev_bound:
  fixes xs :: "real list"
  assumes u: "\<forall>x\<in>set xs. 0 \<le> x \<and> x \<le> 1" and n: "xs \<noteq> []"
  shows "sum_list (map (\<lambda>x. (x - mean xs)\<^sup>2) xs) \<le> real (length xs) / 4"
proof -
  define S where "S = sum_list xs"
  define n where "n = real (length xs)"
  have npos: "0 < n" using assms by (simp add: n_def)
  have "sum_list (map (\<lambda>x. (x - mean xs)\<^sup>2) xs)
        = sum_list (map (\<lambda>x. x\<^sup>2) xs) - 2 * (S / n) * S + n * (S / n)\<^sup>2"
    unfolding mean_def S_def n_def by (rule sum_sq_dev)
  also have "\<dots> \<le> S - 2 * (S / n) * S + n * (S / n)\<^sup>2"
    using sum_sq_le_sum[OF u] by (simp add: S_def)
  also have "\<dots> = S - S\<^sup>2 / n"
    using npos by (simp add: field_simps power2_eq_square)
  also have "\<dots> \<le> n / 4"
  proof -
    have "0 \<le> (S - n / 2)\<^sup>2" by simp
    then have "S * n - S\<^sup>2 \<le> n\<^sup>2 / 4"
      by (simp add: power2_eq_square algebra_simps)
    then have "(S * n - S\<^sup>2) / n \<le> (n\<^sup>2 / 4) / n"
      using npos by (intro divide_right_mono) simp_all
    moreover have "(S * n - S\<^sup>2) / n = S - S\<^sup>2 / n"
      using npos by (simp add: diff_divide_distrib)
    moreover have "(n\<^sup>2 / 4) / n = n / 4"
      using npos by (simp add: power2_eq_square)
    ultimately show ?thesis by simp
  qed
  finally show ?thesis by (simp add: n_def)
qed


lemma stdev_le_1:
  fixes xs :: "real list"
  assumes u: "\<forall>x\<in>set xs. 0 \<le> x \<and> x \<le> 1" and n: "2 \<le> length xs"
  shows "\<exists>sd. stdev xs = Inr sd \<and> 0 \<le> sd \<and> sd \<le> 1"
proof -
  let ?v = "sum_list (map (\<lambda>x. (x - mean xs)\<^sup>2) xs) / real (length xs - 1)"
  have ne: "xs \<noteq> []" using n by auto
  have "sum_list (map (\<lambda>x. (x - mean xs)\<^sup>2) xs) \<le> real (length xs) / 4"
    using u ne by (rule sq_dev_bound)
  also have "\<dots> \<le> real (length xs - 1)"
    using n by (simp add: of_nat_diff)
  finally have "?v \<le> 1" using n by (simp add: divide_le_eq_1)
  moreover have "0 \<le> ?v"
    by (intro divide_nonneg_nonneg sum_list_nonneg) auto
  ultimately have "0 \<le> sqrt ?v \<and> sqrt ?v \<le> 1" by simp
  then show ?thesis using n by (simp add: stdev_def)
qed


lemma sum_list_unit_bounds:
  fixes xs :: "real list"
  assumes "\<forall>x\<in>set xs. 0 \<le> x \<and> x \<le> 1"
  shows "0 \<le> sum_list xs \<and> sum_list xs \<le> real (length xs)"
  using assms by (induction xs) auto

lemma avg_unit_bounds:
  fixes xs :: "real list"
  assumes u: "\<forall>x\<in>set xs. 0 \<le> x \<and> x \<le> 1" and ne: "xs \<noteq> []"
  shows "0 \<le> sum_list xs / real (length xs) \<and> sum_list xs / real (length xs) \<le> 1"
  using sum_list_unit_bounds[OF u] ne by (simp add: divide_le_eq_1)

lemma weighted_sum_bounds:
  fixes a c k :: real
  assumes "0 \<le> a" "a \<le> 1" "0 \<le> c" "c \<le> 1" "0 \<le> k" "k \<le> 1"
  shows "0 \<le> a * (4 / 10) + c * (3 / 10) + k * (3 / 10) \<and>
         a * (4 / 10) + c * (3 / 10) + k * (3 / 10) \<le> 1"
  using assms by argo

lemma assess_all_scores:
  "assess_all cy sources = Inr scores \<Longrightarrow>
   length scores = length sources \<and> (\<forall>x\<in>set scores. 0 \<le> x \<and> x \<le> 1)"
proof (induction sources arbitrary: scores)
  case Nil
  then show ?case by simp
next
  case (Cons src rest)
  from Cons.prems obtain q qs where q: "assess_source_quality cy src = Inr q"
    and qs: "assess_all cy rest = Inr qs" and s: "scores = q # qs"
    by (auto split: sum.splits)
  from q have "0 \<le> q \<and> q \<le> 1" using assess_source_quality_range by fastforce
  with Cons.IH[OF qs] s show ?case by simp
qed

lemma assess_all_returns:
  "\<forall>src\<in>set sources. \<exists>q. assess_source_quality cy src = Inr q \<Longrightarrow>
   \<exists>scores. assess_all cy sources = Inr scores"
  by (induction sources) auto

lemma calculate_confidence_edu_source:
  "calculate_confidence 2024 [edu_source] = Inr (49 / 100, [])"
  by (simp add: calculate_confidence_def assess_source_quality_def edu_source_def dict_get_def
      reputable_domains_def source_types_def int_true_div_def float_overflow_bound_def)


lemma assess_source_quality_edu_source: "assess_source_quality 2024 edu_source = Inr (7 / 10)"
  by (simp add: assess_source_quality_def edu_source_def dict_get_def
      reputable_domains_def source_types_def int_true_div_def float_overflow_bound_def)

lemma assess_source_quality_old_blog: "assess_source_quality 2024 old_blog_source = Inr (7 / 20)"
  by (simp add: assess_source_quality_def old_blog_source_def dict_get_def
      reputable_domains_def source_types_def int_true_div_def float_overflow_bound_def)

subsection \<open>Evaluating the string primitives\<close>

lemmas str_simps = is_substring_def startswith_def lower_def upper_def lower_char_def upper_char_def
  is_space_def split_ws_def strip_def replace_def sublist_code(3)

subsection \<open>The retry loop\<close>

text \<open>The loop, one case of the source at a time.\<close>

lemma mrf_done: "retries \<le> a \<Longrightarrow> make_request_from retries rs a = (Inr None, [])"
  by (subst make_request_from.simps) simp

lemma mrf_success:
  "a < retries \<Longrightarrow> rs a = Success body \<Longrightarrow>
   make_request_from retries rs a = (Inr (Some body), [Request a])"
  by (subst make_request_from.simps) simp

lemma mrf_timeout_last:
  "a < retries \<Longrightarrow> rs a = Timeout msg \<Longrightarrow> a = retries - 1 \<Longrightarrow>
   make_request_from retries rs a = (Inl (TimeoutException msg), [Request a])"
  by (subst make_request_from.simps) simp

lemma mrf_timeout_retry:
  "a < retries \<Longrightarrow> rs a = Timeout msg \<Longrightarrow> a \<noteq> retries - 1 \<Longrightarrow>
   make_request_from retries rs a =
     (fst (make_request_from retries rs (a + 1)),
      Request a # Sleep (1 * (a + 1)) # snd (make_request_from retries rs (a + 1)))"
  by (subst make_request_from.simps) (simp add: case_prod_unfold Let_def)

lemma mrf_rate_limit:
  "a < retries \<Longrightarrow> rs a = HTTPError 429 msg \<Longrightarrow>
   make_request_from retries rs a =
     (fst (make_request_from retries rs (a + 1)),
      Request a # Sleep (2 * (a + 1)) # snd (make_request_from retries rs (a + 1)))"
  by (subst make_request_from.simps) (simp add: case_prod_unfold Let_def)

lemma mrf_http_error:
  "a < retries \<Longrightarrow> rs a = HTTPError code msg \<Longrightarrow> code \<noteq> 429 \<Longrightarrow>
   make_request_from retries rs a = (Inl (HTTPStatusError code msg), [Request a])"
  by (subst make_request_from.simps) simp

lemma mrf_failure:
  "a < retries \<Longrightarrow> rs a = Failure e \<Longrightarrow>
   make_request_from retries rs a = (Inl e, [Request a])"
  by (subst make_request_from.simps) simp

text \<open>The first event of the loop entered at an attempt that exists is its request.\<close>

lemma mrf_first_event:
  "a < retries \<Longrightarrow> \<exists>rest. snd (make_request_from retries rs a) = Request a # rest"
  by (subst make_request_from.simps) (simp add: case_prod_unfold Let_def split: response.splits)

text \<open>Only attempts from the entry point on, and below the bound, are requested.\<close>

lemma mrf_requests_range:
  "Request i \<in> set (snd (make_request_from retries rs a)) \<Longrightarrow> a \<le> i \<and> i < retries"
proof (induction retries rs a rule: make_request_from.induct)
  case (1 retries rs a)
  show ?case
  proof (cases "retries \<le> a")
    case True
    with "1.prems" show ?thesis by (simp add: mrf_done)
  next
    case False
    then have lt: "a < retries" by simp
    show ?thesis
    proof (cases "rs a")
      case (Success body)
      with lt "1.prems" show ?thesis by (simp add: mrf_success)
    next
      case (Timeout msg)
      show ?thesis
      proof (cases "a = retries - 1")
        case True
        with lt Timeout "1.prems" show ?thesis by (simp add: mrf_timeout_last)
      next
        case False
        with lt Timeout "1.prems" "1.IH"(1)[OF \<open>\<not> retries \<le> a\<close> Timeout False]
        show ?thesis by (auto simp: mrf_timeout_retry)
      qed
    next
      case (HTTPError code msg)
      show ?thesis
      proof (cases "code = 429")
        case True
        with lt HTTPError "1.prems" "1.IH"(2)[OF \<open>\<not> retries \<le> a\<close> HTTPError True]
        show ?thesis by (auto simp: mrf_rate_limit)
      next
        case False
        with lt HTTPError "1.prems" show ?thesis by (simp add: mrf_http_error)
      qed
    next
      case (Failure e)
      with lt "1.prems" show ?thesis by (simp add: mrf_failure)
    qed
  qed
qed

text \<open>
  The run from an earlier entry point ends with the run from any attempt it requests,
  and has the same result.
\<close>

lemma mrf_suffix:
  "Request i \<in> set (snd (make_request_from retries rs a)) \<Longrightarrow>
   fst (make_request_from retries rs a) = fst (make_request_from retries rs i) \<and>
   (\<exists>pre. snd (make_request_from retries rs a) = pre @ snd (make_request_from retries rs i))"
proof (induction retries rs a rule: make_request_from.induct)
  case (1 retries rs a)
  have range: "a \<le> i \<and> i < retries" using "1.prems" by (rule mrf_requests_range)
  show ?case
  proof (cases "a = i")
    case True
    then show ?thesis by simp
  next
    case False
    with range have lt: "a < retries" and ai: "a < i" by simp_all
    then have nle: "\<not> retries \<le> a" by simp
    show ?thesis
    proof (cases "rs a")
      case (Success body)
      with lt False "1.prems" show ?thesis by (simp add: mrf_success)
    next
      case (Timeout msg)
      show ?thesis
      proof (cases "a = retries - 1")
        case True
        with lt Timeout False "1.prems" show ?thesis by (simp add: mrf_timeout_last)
      next
        case nl: False
        have "Request i \<in> set (snd (make_request_from retries rs (a + 1)))"
          using lt Timeout nl False "1.prems" by (simp add: mrf_timeout_retry)
        from "1.IH"(1)[OF nle Timeout nl this] lt Timeout nl
        show ?thesis by (auto simp: mrf_timeout_retry)
      qed
    next
      case (HTTPError code msg)
      show ?thesis
      proof (cases "code = 429")
        case True
        have "Request i \<in> set (snd (make_request_from retries rs (a + 1)))"
          using lt HTTPError True False "1.prems" by (simp add: mrf_rate_limit)
        from "1.IH"(2)[OF nle HTTPError True this] lt HTTPError True
        show ?thesis by (auto simp: mrf_rate_limit)
      next
        case False
        with lt HTTPError \<open>a \<noteq> i\<close> "1.prems" show ?thesis by (simp add: mrf_http_error)
      qed
    next
      case (Failure e)
      with lt \<open>a \<noteq> i\<close> "1.prems" show ?thesis by (simp add: mrf_failure)
    qed
  qed
qed

lemma make_request_timing_out:
  "make_request default_client timing_out = (Inl (TimeoutException ''timed out''), [Request 0, Sleep 1, Request 1])"
  by (simp add: make_request_def default_client_def timing_out_def make_request_from.simps)

lemma make_request_rate_limited:
  "make_request default_client rate_limited = (Inr None, [Request 0, Sleep 2, Request 1, Sleep 4])"
  by (simp add: make_request_def default_client_def rate_limited_def make_request_from.simps)

lemma make_request_server_error:
  "make_request default_client server_error =
     (Inl (HTTPStatusError 500 ''Internal Server Error''), [Request 0])"
  by (simp add: make_request_def default_client_def server_error_def make_request_from.simps)

text \<open>
  What the loop does at an attempt it reaches: a 429 answer with an attempt left is
  followed by the sleep of \<open>2 * (i + 1)\<close> seconds and the next request; an HTTP error
  with another status is raised at once.
\<close>

lemma make_request_retry_steps:
  assumes req: "Request i \<in> set (snd (make_request self rs))"
  shows "i < max_retries self"
    and "rs i = HTTPError 429 msg \<Longrightarrow> i + 1 < max_retries self \<Longrightarrow>
         \<exists>pre rest. snd (make_request self rs) =
           pre @ Request i # Sleep (2 * (i + 1)) # Request (i + 1) # rest"
    and "rs i = HTTPError code msg \<Longrightarrow> code \<noteq> 429 \<Longrightarrow>
         fst (make_request self rs) = Inl (HTTPStatusError code msg) \<and>
         (\<exists>pre. snd (make_request self rs) = pre @ [Request i])"
proof -
  let ?n = "max_retries self"
  from req have r0: "Request i \<in> set (snd (make_request_from ?n rs 0))"
    by (simp add: make_request_def)
  then show lt: "i < ?n" using mrf_requests_range by blast
  from r0 obtain pre where
    res: "fst (make_request_from ?n rs 0) = fst (make_request_from ?n rs i)" and
    evs: "snd (make_request_from ?n rs 0) = pre @ snd (make_request_from ?n rs i)"
    using mrf_suffix by blast
  show "\<exists>pre rest. snd (make_request self rs) =
           pre @ Request i # Sleep (2 * (i + 1)) # Request (i + 1) # rest"
    if h: "rs i = HTTPError 429 msg" and more: "i + 1 < ?n"
  proof -
    obtain rest where "snd (make_request_from ?n rs (i + 1)) = Request (i + 1) # rest"
      using mrf_first_event[OF more] by blast
    then have "snd (make_request self rs) =
                 pre @ Request i # Sleep (2 * (i + 1)) # Request (i + 1) # rest"
      using evs lt h by (simp add: make_request_def mrf_rate_limit)
    then show ?thesis by blast
  qed
  show "fst (make_request self rs) = Inl (HTTPStatusError code msg) \<and>
         (\<exists>pre. snd (make_request self rs) = pre @ [Request i])"
    if h: "rs i = HTTPError code msg" "code \<noteq> 429"
    using res evs lt h by (simp add: make_request_def mrf_http_error)
qed

subsection \<open>The search\<close>

text \<open>
  The cache lookup never yields results, so the \<^verbatim>\<open>try\<close> block is its cache-miss
  branch.
\<close>

lemma search_try_miss:
  "search_try self env query role_context start_time metrics =
     (case fst (make_request self (responses env)) of
                 Inl e \<Rightarrow> Inl (e, metrics, 1)
               | Inr None \<Rightarrow>
                   Inl (AttributeError
                          ([CHR 0x27] @ ''NoneType'' @ [CHR 0x27] @ '' object has no attribute '' @
                           [CHR 0x27] @ ''get'' @ [CHR 0x27]), metrics, 1)
               | Inr (Some results) \<Rightarrow>
                   (case process_results env start_time
                           (remdups (split_ws (sanitize_query (enhance_query query role_context))))
                           results [] [] 1 of
                      Inl (e, k) \<Rightarrow> Inl (e, metrics, k)
                    | Inr (search_results, sources, k) \<Rightarrow>
                        (case calculate_confidence (year_now env) sources of
                              Inl e \<Rightarrow> Inl (e, metrics\<lparr>total_time := clock env k - start_time,
                                      results_count := length search_results\<rparr>, k + 1)
                            | Inr (confidence_score, confidence_reasons) \<Rightarrow>
                                Inr (sort_key (\<lambda>x. - relevance_score x) search_results,
                                     metrics\<lparr>total_time := clock env k - start_time,
                                      results_count := length search_results\<rparr>, confidence_score,
                                     confidence_reasons))))"
  by (simp add: search_try_def get_cached_results_def Let_def split: sum.splits option.splits prod.splits)

lemma search_try_cache_hit:
  "search_try self env query role_context start_time metrics = Inl (e, m, k) \<Longrightarrow> cache_hit m = cache_hit metrics"
  "search_try self env query role_context start_time metrics = Inr (rs, m, c, reasons) \<Longrightarrow> cache_hit m = cache_hit metrics"
  by (auto simp: search_try_miss split: sum.splits option.splits prod.splits)

lemma process_results_ticks:
  "process_results env st qt rs srs srcs k = Inl (e, k') \<Longrightarrow> k \<le> k'"
proof (induction rs arbitrary: srs srcs k)
  case Nil
  then show ?case by simp
next
  case (Cons r rs)
  show ?case using Cons.prems
    by (auto simp: Let_def split: sum.splits option.splits if_splits dest!: Cons.IH)
qed

lemma search_try_ticks:
  "search_try self env query role_context start_time metrics = Inl (e, m, k) \<Longrightarrow> 0 < k"
  by (auto simp: search_try_miss split: sum.splits option.splits prod.splits dest: process_results_ticks)

text \<open>
  Two failing searches: a provider that never answers in time, and one that answers
  every request with 429, after which \<^verbatim>\<open>_make_request\<close> returns \<^verbatim>\<open>None\<close>.
\<close>

lemma search_timing_out:
  "search default_client timing_out_env ''coffee'' ''fact check'' =
     ([], \<lparr>total_time = 1, cache_hit = False, results_count = 0, error = Some ''timed out''\<rparr>,
      0, [''No confidence assessment''])"
  by (simp add: search_def search_try_miss make_request_timing_out timing_out_env_def
      initial_metrics_def str_exn_def)

lemma search_rate_limited:
  "search default_client rate_limited_env ''coffee'' ''fact check'' =
     ([], \<lparr>total_time = 1, cache_hit = False, results_count = 0,
          error = Some ([CHR 0x27] @ ''NoneType'' @ [CHR 0x27] @ '' object has no attribute '' @
                        [CHR 0x27] @ ''get'' @ [CHR 0x27])\<rparr>,
      0, [''No confidence assessment''])"
  by (simp add: search_def search_try_miss make_request_rate_limited rate_limited_env_def
      initial_metrics_def str_exn_def)

subsection \<open>The evidence loop\<close>

text \<open>
  The loop appends, to what it has, the evidence of the results not seen before; those
  results have pairwise different URLs, cover every URL of the input, and are the
  results at the positions whose URL occurs at no earlier position.
\<close>

lemma collect_evidence_unseen:
  "collect_evidence rs seen acc = acc @ map evidence_of (unseen seen rs)"
  by (induction rs arbitrary: seen acc) simp_all

lemma unseen_urls:
  "distinct (map url (unseen seen rs)) \<and> set (map url (unseen seen rs)) = url ` set rs - seen"
  by (induction rs arbitrary: seen) auto

lemma unseen_positions:
  "unseen seen rs =
     map (\<lambda>i. rs ! i)
       (filter (\<lambda>i. url (rs ! i) \<notin> seen \<union> set (map url (take i rs))) [0..<length rs])"
proof (induction rs arbitrary: seen)
  case Nil
  then show ?case by simp
next
  case (Cons r rs)
  have upt: "[0..<length (r # rs)] = 0 # map Suc [0..<length rs]"
    by (simp add: upt_conv_Cons map_Suc_upt del: upt_Suc)
  have tl: "map (\<lambda>i. (r # rs) ! i)
          (filter (\<lambda>i. url ((r # rs) ! i) \<notin> seen \<union> set (map url (take i (r # rs))))
             (map Suc [0..<length rs]))
        = unseen (insert (url r) seen) rs"
    by (simp add: Cons.IH filter_map comp_def conj_ac)
  show ?case
  proof (cases "url r \<in> seen")
    case True
    then have "insert (url r) seen = seen" by auto
    with True tl show ?thesis by (simp only: upt) simp
  next
    case False
    with tl show ?thesis by (simp only: upt) simp
  qed
qed

lemma count_list_distinct:
  "distinct xs \<Longrightarrow> x \<in> set xs \<Longrightarrow> count_list xs x = 1"
  by (induction xs) auto

lemma collect_evidence_first_seen:
  "distinct (map ep_url (collect_evidence results {} [])) \<and>
   set (map ep_url (collect_evidence results {} [])) = url ` set results \<and>
   collect_evidence results {} [] = map evidence_of (first_seen results)"
proof -
  have u: "map ep_url (collect_evidence results {} []) = map url (unseen {} results)"
    by (simp add: collect_evidence_unseen evidence_of_def comp_def)
  show ?thesis using unseen_urls[of "{}" results] unseen_positions[of "{}" results]
    unfolding u by (simp add: collect_evidence_unseen first_seen_def)
qed

lemma first_seen_example:
  "first_seen [result_a, result_b, result_a_again] = [result_a, result_b]"
  by (simp add: first_seen_def result_a_def result_b_def result_a_again_def upt_rec)

subsection \<open>Parsing and formatting\<close>

lemma parse_synthetic_response:
  "parse_llm_response synthetic_response =
     \<lparr>sec_verdict = ''TRUE'', sec_explanation = [], sec_context = [],
      sec_references = [''- http://a.example'', ''- http://b.example''],
      sec_confidence_level = [], sec_opinion_warning = []\<rparr>"
  by (simp add: parse_llm_response_def synthetic_response_def parse_line_def str_simps Let_def)

text \<open>A header that does not occur in the text is not found.\<close>

lemma match_header_at_prefix: "match_header_at dotall header s = Some g \<Longrightarrow> prefix header s"
  by (simp add: match_header_at_def split: if_splits)

lemma re_search_header_absent:
  "\<not> is_substring header s \<Longrightarrow> re_search_header dotall header s = None"
proof (induction s)
  case Nil
  then have "\<not> prefix header []" by (auto simp: is_substring_def)
  then show ?case by (simp add: match_header_at_def)
next
  case (Cons c cs)
  then have np: "\<not> prefix header (c # cs)" and ns: "\<not> is_substring header cs"
    by (auto simp: is_substring_def sublist_Cons_right)
  from np have "match_header_at dotall header (c # cs) = None"
    by (simp add: match_header_at_def)
  with ns Cons.IH show ?case by simp
qed

lemma format_response_try_returns: "\<exists>formatted. format_response_try raw = Inr formatted"
  by (simp add: format_response_try_def Let_def)

lemma upper_unknown: "upper ''UNKNOWN'' \<noteq> ''FALSE''"
  by (simp add: str_simps)

lemma format_response_no_header:
  assumes "\<not> is_substring ''VERDICT:'' raw" "\<not> is_substring ''EXPLANATION:'' raw"
    "\<not> is_substring ''CONTEXT:'' raw" "\<not> is_substring ''REFERENCES:'' raw"
  shows "format_response_try raw = Inr unknown_block"
  using assms upper_unknown
  by (simp add: format_response_try_def Let_def re_search_header_absent unknown_block_def)

text \<open>The formatter on the response text of the parsing example.\<close>

lemma format_response_synthetic:
  \<open>format_response synthetic_response =
     join [CHR 0x0A]
       [''<div style="margin: 16px 0;"><strong>TRUE</strong></div>'',
        ''<h2 style="margin: 24px 0 16px;">Explanation</h2>'',
        ''<div style="margin-bottom: 16px;">because X</div>'',
        ''<h2 style="margin: 24px 0 16px;">Additional Context</h2>'',
        ''<div style="margin-bottom: 16px;">extra</div>'',
        ''<h2 style="margin: 24px 0 16px;">References</h2>'',
        ''1.  - <a href="http://a.example" target="_blank">http://a.example</a><br>'']\<close>
  by (simp add: format_response_def format_response_try_def synthetic_response_def Let_def
      str_simps match_header_at_def lazy_line_def match_url_at_def digit_char_def)

section \<open>Properties\<close>

text \<open>
  C1. For every non-empty list of source signals with valid per-source quality scores,
  that is, whose assessments by \<open>assess_source_quality\<close> all return a score,
  \<open>calculate_confidence\<close> returns normally (the standard deviation is only taken of
  two or more scores) and the score component of its result is at least 0 and at
  most 1.
\<close>

theorem calculate_confidence_score_in_unit_interval:
  assumes ne: "sources \<noteq> []"
    and valid: "\<forall>src\<in>set sources. \<exists>q. assess_source_quality current_year src = Inr q"
  shows "\<exists>score reasons. calculate_confidence current_year sources = Inr (score, reasons)
           \<and> 0 \<le> score \<and> score \<le> 1"
proof -
  from valid obtain xs where xs: "assess_all current_year sources = Inr xs"
    using assess_all_returns by blast
  let ?avg = "sum_list xs / real (length xs)"
  let ?k = "min 1 (real (length sources) / 5)"
  have len: "length xs = length sources" and u: "\<forall>x\<in>set xs. 0 \<le> x \<and> x \<le> 1"
    using assess_all_scores[OF xs] by blast+
  have xne: "xs \<noteq> []" using ne len by auto
  have avg: "0 \<le> ?avg \<and> ?avg \<le> 1" using u xne by (rule avg_unit_bounds)
  have k: "0 \<le> ?k \<and> ?k \<le> 1" by simp
  obtain c where c: "(if length xs > 1
                 then (case stdev xs of Inl e \<Rightarrow> Inl e | Inr sd \<Rightarrow> Inr (1 - sd))
                 else Inr (5 / 10)) = (Inr c :: exn + real)" and cb: "0 \<le> c \<and> c \<le> 1"
  proof (cases "length xs > 1")
    case True
    then have "2 \<le> length xs" by simp
    with u obtain sd where "stdev xs = Inr sd" "0 \<le> sd" "sd \<le> 1"
      using stdev_le_1 by blast
    with True that[of "1 - sd"] show ?thesis by simp
  next
    case False
    with that[of "5 / 10"] show ?thesis by simp
  qed
  have "0 \<le> ?avg * (4 / 10) + c * (3 / 10) + ?k * (3 / 10) \<and>
        ?avg * (4 / 10) + c * (3 / 10) + ?k * (3 / 10) \<le> 1"
    using avg cb k by (intro weighted_sum_bounds) simp_all
  then show ?thesis
    using ne xs c unfolding calculate_confidence_def Let_def by simp
qed

theorem calculate_confidence_score_in_unit_interval_witness:
  "[edu_source, old_blog_source] \<noteq> [] \<and>
   assess_source_quality 2024 edu_source = Inr (7 / 10) \<and>
   assess_source_quality 2024 old_blog_source = Inr (7 / 20) \<and>
   (\<exists>score reasons. calculate_confidence 2024 [edu_source, old_blog_source] = Inr (score, reasons)
      \<and> 0 \<le> score \<and> score \<le> 1)"
proof -
  have ne: "[edu_source, old_blog_source] \<noteq> []" by simp
  have valid: "\<forall>src\<in>set [edu_source, old_blog_source].
                 \<exists>q. assess_source_quality 2024 src = Inr q"
  proof (intro ballI)
    fix src assume "src \<in> set [edu_source, old_blog_source]"
    then have "src = edu_source \<or> src = old_blog_source" by simp
    then show "\<exists>q. assess_source_quality 2024 src = Inr q"
      using assess_source_quality_edu_source assess_source_quality_old_blog by blast
  qed
  from calculate_confidence_score_in_unit_interval [OF ne valid] ne
    assess_source_quality_edu_source assess_source_quality_old_blog
  show ?thesis by blast
qed

text \<open>
  C2, as the code has it. For the response text of the example,
  \<open>parse_llm_response\<close> returns the verdict \<^verbatim>\<open>TRUE\<close> and, as references, the two
  lines after the header as they stand, with their bullet markers.
\<close>

theorem parse_llm_response_synthetic:
  "sec_verdict (parse_llm_response synthetic_response) = ''TRUE'' \<and>
   sec_references (parse_llm_response synthetic_response) =
     [''- http://a.example'', ''- http://b.example'']"
  by (simp add: parse_synthetic_response)

text \<open>
  C2 as stated fails: the four fields are not all as the claim says. The references
  keep their bullet markers; the explanation and the context are empty, because the
  branches for these two headers drop the rest of the header line.
\<close>

theorem parse_llm_response_synthetic_not_exact:
  "\<not> (sec_verdict (parse_llm_response synthetic_response) = ''TRUE'' \<and>
      sec_explanation (parse_llm_response synthetic_response) = ''because X'' \<and>
      sec_context (parse_llm_response synthetic_response) = ''extra'' \<and>
      sec_references (parse_llm_response synthetic_response) =
        [''http://a.example'', ''http://b.example''])"
  by (simp add: parse_synthetic_response)

text \<open>
  C3. The claim is that an HTTP 429 answer is followed by a sleep and a retry at every
  attempt index, however many attempts are left. The code does not do this on the last
  attempt: with \<open>max_retries = 2\<close>, the value that the constructor sets, and a provider
  that answers both requests with 429, the 429 of attempt 1 is followed by the sleep of
  4 seconds and then by nothing. No request of attempt 2 is made, and
  \<open>_make_request\<close> leaves its loop and returns \<^verbatim>\<open>None\<close>, where the time-out branch
  beside it raises on the last attempt.
\<close>

theorem make_request_rate_limit_last_attempt:
  "rate_limited 1 = HTTPError 429 ''Too Many Requests'' \<and>
   max_retries default_client = 2 \<and>
   make_request default_client rate_limited =
     (Inr None, [Request 0, Sleep 2, Request 1, Sleep 4]) \<and>
   Request 2 \<notin> set (snd (make_request default_client rate_limited)) \<and>
   make_request default_client timing_out =
     (Inl (TimeoutException ''timed out''), [Request 0, Sleep 1, Request 1])"
proof -
  have "make_request default_client rate_limited =
          (Inr None, [Request 0, Sleep 2, Request 1, Sleep 4])"
    by (simp add: make_request_def default_client_def rate_limited_def make_request_from.simps)
  moreover have "make_request default_client timing_out =
          (Inl (TimeoutException ''timed out''), [Request 0, Sleep 1, Request 1])"
    by (simp add: make_request_def default_client_def timing_out_def make_request_from.simps)
  ultimately show ?thesis by (simp add: rate_limited_def default_client_def)
qed

text \<open>
  C4, as the code has it. \<open>WebSearch.__init__\<close> raises \<^verbatim>\<open>ValueError\<close> at once when
  \<^verbatim>\<open>BRAVE_API_KEY\<close> is absent. \<open>LLMHandler.__init__\<close> has no check of its own: when
  \<^verbatim>\<open>GLHF_API_KEY\<close> is absent it raises at once what the client constructor raises on
  the missing key, whatever the second constructor would do; with the constructor of
  the \<^verbatim>\<open>openai\<close> package that is the case when \<^verbatim>\<open>OPENAI_API_KEY\<close> is absent as well.
\<close>

theorem construction_credentials:
  "(environ ''BRAVE_API_KEY'' = None \<longrightarrow>
      WebSearch_init environ = Inl (ValueError ''BRAVE_API_KEY environment variable is required'')) \<and>
   (environ ''GLHF_API_KEY'' = None \<and>
    AsyncOpenAI ''https://glhf.chat/api/openai/v1'' None = Inl e \<longrightarrow>
      LLMHandler_init AsyncOpenAI OpenAIModel environ = Inl e) \<and>
   (environ ''GLHF_API_KEY'' = None \<and> environ ''OPENAI_API_KEY'' = None \<longrightarrow>
      LLMHandler_init (openai_AsyncOpenAI environ) OpenAIModel environ =
        Inl (OpenAIError ''The api_key client option must be set''))"
proof (intro conjI impI)
  assume "environ ''BRAVE_API_KEY'' = None"
  then show "WebSearch_init environ =
               Inl (ValueError ''BRAVE_API_KEY environment variable is required'')"
    by (simp add: WebSearch_init_def)
next
  assume "environ ''GLHF_API_KEY'' = None \<and>
          AsyncOpenAI ''https://glhf.chat/api/openai/v1'' None = Inl e"
  then show "LLMHandler_init AsyncOpenAI OpenAIModel environ = Inl e"
    by (simp add: LLMHandler_init_def)
next
  assume a: "environ ''GLHF_API_KEY'' = None \<and> environ ''OPENAI_API_KEY'' = None"
  then have "openai_AsyncOpenAI environ ''https://glhf.chat/api/openai/v1'' None =
               Inl (OpenAIError ''The api_key client option must be set'')"
    by (simp add: openai_AsyncOpenAI_def)
  with a show "LLMHandler_init (openai_AsyncOpenAI environ) OpenAIModel environ =
                 Inl (OpenAIError ''The api_key client option must be set'')"
    by (simp add: LLMHandler_init_def)
qed

theorem construction_credentials_witness:
  "Map.empty ''BRAVE_API_KEY'' = (None :: string option) \<and>
   WebSearch_init Map.empty = Inl (ValueError ''BRAVE_API_KEY environment variable is required'') \<and>
   Map.empty ''GLHF_API_KEY'' = (None :: string option) \<and>
   Map.empty ''OPENAI_API_KEY'' = (None :: string option) \<and>
   openai_AsyncOpenAI Map.empty ''https://glhf.chat/api/openai/v1'' None =
     Inl (OpenAIError ''The api_key client option must be set'') \<and>
   LLMHandler_init (openai_AsyncOpenAI Map.empty) pydantic_ai_OpenAIModel Map.empty =
     Inl (OpenAIError ''The api_key client option must be set'')"
proof -
  have a: "openai_AsyncOpenAI Map.empty ''https://glhf.chat/api/openai/v1'' None =
             Inl (OpenAIError ''The api_key client option must be set'')"
    by (simp add: openai_AsyncOpenAI_def)
  from construction_credentials
         [of Map.empty "openai_AsyncOpenAI Map.empty"
             "OpenAIError ''The api_key client option must be set''" pydantic_ai_OpenAIModel] a
  show ?thesis by simp
qed

text \<open>
  C4 as stated fails for the Completion Client. In an environment without
  \<^verbatim>\<open>GLHF_API_KEY\<close> in which \<^verbatim>\<open>OPENAI_API_KEY\<close> is set, the \<^verbatim>\<open>openai\<close>
  constructor takes the other variable, and \<open>LLMHandler.__init__\<close> succeeds.
\<close>

theorem LLMHandler_init_without_key:
  "other_provider_environ ''GLHF_API_KEY'' = None \<and>
   LLMHandler_init (openai_AsyncOpenAI other_provider_environ) pydantic_ai_OpenAIModel
       other_provider_environ =
     Inr \<lparr>client = \<lparr>base_url = ''https://glhf.chat/api/openai/v1'', api_key = ''sk-other''\<rparr>,
          model = \<lparr>model_name = ''hf:meta-llama/Llama-3.3-70B-Instruct'',
                   model_client = \<lparr>base_url = ''https://glhf.chat/api/openai/v1'',
                                    api_key = ''sk-other''\<rparr>\<rparr>\<rparr>"
  by (simp add: other_provider_environ_def LLMHandler_init_def openai_AsyncOpenAI_def
      pydantic_ai_OpenAIModel_def dict_get_def)

text \<open>
  C5, as the code has it. Whenever the \<^verbatim>\<open>try\<close> block of \<open>search\<close> raises an
  exception \<open>e\<close> (a time-out on the last attempt, an HTTP error, a \<^verbatim>\<open>None\<close> answer
  after a final 429, a missing key or a malformed URL in a result), \<open>search\<close> returns
  normally: no results, the default confidence \<open>(0.0, ["No confidence assessment"])\<close>,
  and metrics whose \<open>error\<close> is \<^verbatim>\<open>str(e)\<close> and whose \<open>total_time\<close> the handler has set
  to a later reading of the wall clock (reading \<open>k > 0\<close>) minus the first. That
  difference is at least 0 whenever the later reading is not below the first.
\<close>

theorem search_failure_result:
  assumes "search_try self env query role_context (clock env 0) initial_metrics = Inl (e, m, k)"
  shows "\<exists>metrics. search self env query role_context =
                      ([], metrics, 0, [''No confidence assessment''])
           \<and> error metrics = Some (str_exn e)
           \<and> total_time metrics = clock env k - clock env 0 \<and> 0 < k
           \<and> (clock env 0 \<le> clock env k \<longrightarrow> 0 \<le> total_time metrics)"
proof -
  have "0 < k" using assms by (rule search_try_ticks)
  then show ?thesis using assms
    by (simp add: search_def Let_def)
qed

theorem search_failure_result_witness:
  "search_try default_client timing_out_env ''coffee'' ''fact check'' (clock timing_out_env 0)
       initial_metrics
     = Inl (TimeoutException ''timed out'', initial_metrics, 1) \<and>
   clock timing_out_env 0 \<le> clock timing_out_env 1 \<and>
   (\<exists>metrics. search default_client timing_out_env ''coffee'' ''fact check'' =
                 ([], metrics, 0, [''No confidence assessment''])
           \<and> error metrics = Some ''timed out''
           \<and> total_time metrics = 1
           \<and> 0 \<le> total_time metrics)"
proof -
  have a: "search_try default_client timing_out_env ''coffee'' ''fact check''
             (clock timing_out_env 0) initial_metrics
           = Inl (TimeoutException ''timed out'', initial_metrics, 1)"
    by (simp add: search_try_miss make_request_timing_out timing_out_env_def)
  have b: "clock timing_out_env 0 \<le> clock timing_out_env 1"
    by (simp add: timing_out_env_def)
  have c: "clock timing_out_env 1 - clock timing_out_env 0 = 1"
    by (simp add: timing_out_env_def)
  show ?thesis using a b c search_failure_result [OF a] by (simp add: str_exn_def)
qed

text \<open>
  C5 as stated fails: \<open>total_time\<close> is a difference of two readings of
  \<^verbatim>\<open>time.time()\<close>, the wall clock, which can be set back between them. With a first
  reading of 5 and a second of 3, a search that fails on time-outs returns a
  \<open>total_time\<close> of \<open>- 2\<close>.
\<close>

theorem search_failure_negative_total_time:
  "clock stepped_back_env 0 = 5 \<and> clock stepped_back_env 1 = 3 \<and>
   search default_client stepped_back_env ''coffee'' ''fact check'' =
     ([], \<lparr>total_time = - 2, cache_hit = False, results_count = 0, error = Some ''timed out''\<rparr>,
      0, [''No confidence assessment'']) \<and>
   \<not> 0 \<le> total_time (fst (snd (search default_client stepped_back_env ''coffee'' ''fact check'')))"
proof -
  have "search default_client stepped_back_env ''coffee'' ''fact check'' =
     ([], \<lparr>total_time = - 2, cache_hit = False, results_count = 0, error = Some ''timed out''\<rparr>,
      0, [''No confidence assessment''])"
    by (simp add: search_def search_try_miss make_request_timing_out stepped_back_env_def
        stepped_back_clock_def initial_metrics_def str_exn_def)
  then show ?thesis by (simp add: stepped_back_env_def stepped_back_clock_def)
qed

text \<open>
  C6. For every query, \<open>_get_cached_results\<close> returns \<^verbatim>\<open>None\<close>, and the metrics that
  \<open>search\<close> returns have \<open>cache_hit\<close> false, whatever the client, the environment and
  the role context: the cache-hit branch is never taken.
\<close>

theorem search_never_cache_hit:
  "get_cached_results query = None \<and>
   cache_hit (fst (snd (search self env query role_context))) = False"
proof
  show "get_cached_results query = None" by (simp add: get_cached_results_def)
  show "cache_hit (fst (snd (search self env query role_context))) = False"
  proof (cases "search_try self env query role_context (clock env 0) initial_metrics")
    case (Inl a)
    then obtain e m k where "a = (e, m, k)" by (cases a) auto
    with Inl show ?thesis using search_try_cache_hit(1)[of self env query role_context _ _ e m k]
      by (simp add: search_def Let_def initial_metrics_def)
  next
    case (Inr b)
    then obtain rs m c reasons where "b = (rs, m, c, reasons)" by (cases b) auto
    with Inr show ?thesis using search_try_cache_hit(2)[of self env query role_context _ _ rs m c reasons]
      by (simp add: search_def Let_def initial_metrics_def)
  qed
qed

text \<open>
  C7, as the code has it. For every input string \<open>format_response\<close> returns the text
  that its \<^verbatim>\<open>try\<close> block builds: no step of the block raises, so the handler with
  the \<^verbatim>\<open><pre>\<close> wrapping is not entered. An input in which none of the headers
  \<^verbatim>\<open>VERDICT:\<close>, \<^verbatim>\<open>EXPLANATION:\<close>, \<^verbatim>\<open>CONTEXT:\<close> and \<^verbatim>\<open>REFERENCES:\<close> occurs, the
  empty text among them, gives the single block with the verdict \<^verbatim>\<open>UNKNOWN\<close>.
\<close>

theorem format_response_total:
  "(\<exists>formatted. format_response_try raw = Inr formatted \<and> format_response raw = formatted) \<and>
   (\<not> is_substring ''VERDICT:'' raw \<and> \<not> is_substring ''EXPLANATION:'' raw \<and>
    \<not> is_substring ''CONTEXT:'' raw \<and> \<not> is_substring ''REFERENCES:'' raw
      \<longrightarrow> format_response raw = unknown_block)"
proof
  obtain formatted where "format_response_try raw = Inr formatted"
    using format_response_try_returns by blast
  then show "\<exists>formatted. format_response_try raw = Inr formatted \<and> format_response raw = formatted"
    by (simp add: format_response_def)
  show "\<not> is_substring ''VERDICT:'' raw \<and> \<not> is_substring ''EXPLANATION:'' raw \<and>
    \<not> is_substring ''CONTEXT:'' raw \<and> \<not> is_substring ''REFERENCES:'' raw
      \<longrightarrow> format_response raw = unknown_block"
    by (simp add: format_response_def format_response_no_header)
qed

theorem format_response_total_witness:
  "\<not> is_substring ''VERDICT:'' ''hello world'' \<and>
   \<not> is_substring ''EXPLANATION:'' ''hello world'' \<and>
   \<not> is_substring ''CONTEXT:'' ''hello world'' \<and>
   \<not> is_substring ''REFERENCES:'' ''hello world'' \<and>
   format_response ''hello world'' = unknown_block"
  using format_response_total [of "''hello world''"] by (simp add: str_simps)

text \<open>
  C7 as stated fails: on the empty text \<open>format_response\<close> returns the block with the
  verdict \<^verbatim>\<open>UNKNOWN\<close>, not the empty text between \<^verbatim>\<open><pre>\<close> and \<^verbatim>\<open></pre>\<close>.
\<close>

theorem format_response_empty_input:
  "format_response [] = unknown_block \<and> format_response [] \<noteq> ''<pre>'' @ [] @ ''</pre>''"
proof -
  have "format_response [] = unknown_block"
    by (simp add: format_response_def format_response_no_header is_substring_def)
  then show ?thesis by (simp add: unknown_block_def)
qed

text \<open>
  C8. For every list of search results in which the results at two positions
  \<open>i < j\<close> have the same URL, the evidence list that \<open>process_query\<close> assembles, in
  the fact checker and in the research assistant, contains that URL exactly once; and
  the evidence list is the evidence of the first-seen results, in the order of the
  input.
\<close>

theorem evidence_deduplicated_first_seen:
  assumes "i < j" and "j < length results" and "url (results ! i) = url (results ! j)"
  shows "count_list (map ep_url (fact_checker_evidence results)) (url (results ! j)) = 1 \<and>
         fact_checker_evidence results = map evidence_of (first_seen results) \<and>
         count_list (map ep_url (research_assistant_evidence results)) (url (results ! j)) = 1 \<and>
         research_assistant_evidence results = map evidence_of (first_seen results)"
proof -
  let ?ev = "collect_evidence results {} []"
  have d: "distinct (map ep_url ?ev)" and s: "set (map ep_url ?ev) = url ` set results"
    and f: "?ev = map evidence_of (first_seen results)"
    using collect_evidence_first_seen[of results] by blast+
  have "url (results ! j) \<in> set (map ep_url ?ev)" using assms(2) unfolding s by simp
  with d have "count_list (map ep_url ?ev) (url (results ! j)) = 1"
    by (rule count_list_distinct)
  with f show ?thesis
    unfolding fact_checker_evidence_def research_assistant_evidence_def by simp
qed

theorem evidence_deduplicated_first_seen_witness:
  "(0::nat) < 2 \<and> 2 < length [result_a, result_b, result_a_again] \<and>
   url ([result_a, result_b, result_a_again] ! 0) = url ([result_a, result_b, result_a_again] ! 2) \<and>
   count_list (map ep_url (fact_checker_evidence [result_a, result_b, result_a_again]))
     (url ([result_a, result_b, result_a_again] ! 2)) = 1 \<and>
   fact_checker_evidence [result_a, result_b, result_a_again] =
     [evidence_of result_a, evidence_of result_b] \<and>
   research_assistant_evidence [result_a, result_b, result_a_again] =
     [evidence_of result_a, evidence_of result_b]"
proof -
  let ?L = "[result_a, result_b, result_a_again]"
  have a: "(0::nat) < 2" by simp
  have b: "2 < length ?L" by simp
  have c: "url (?L ! 0) = url (?L ! 2)" by (simp add: result_a_def result_a_again_def)
  from evidence_deduplicated_first_seen [OF a b c]
  have r: "count_list (map ep_url (fact_checker_evidence ?L)) (url (?L ! 2)) = 1"
    and e1: "fact_checker_evidence ?L = map evidence_of (first_seen ?L)"
    and e2: "research_assistant_evidence ?L = map evidence_of (first_seen ?L)"
    by blast+
  have e1': "fact_checker_evidence ?L = [evidence_of result_a, evidence_of result_b]"
    using e1 by (simp only: first_seen_example list.map)
  have e2': "research_assistant_evidence ?L = [evidence_of result_a, evidence_of result_b]"
    using e2 by (simp only: first_seen_example list.map)
  from a b c r e1' e2' show ?thesis by blast
qed

text \<open>
  C9. The claim is that every source signal, with any integer publication year, gets a
  quality score between 0 and 1 and that nothing raises. The code does not do this
  for a publication year so far from the current year that \<^verbatim>\<open>years_old / 10\<close> is
  beyond the range of a double: for the year \<open>- 10 ^ 400\<close> the division raises
  \<^verbatim>\<open>OverflowError\<close> and no score is returned.
\<close>

theorem assess_source_quality_overflow:
  "assess_source_quality 2024 ancient_source =
     Inl (OverflowError ''integer division result too large for a float'')"
  by (simp add: assess_source_quality_def ancient_source_def int_true_div_def
      float_overflow_bound_def Let_def)

text \<open>
  C10, as the code has it. The terms are lower-cased before they are looked for: for
  every result with a title and a description and every collection of query terms
  such that no lower-cased term is a substring of the lower-cased text
  \<^verbatim>\<open>title + ' ' + description\<close>, the relevance is 0; and it is 0 when there are no
  query terms.
\<close>

theorem calculate_relevance_zero:
  assumes "rd_title result = Some t" and "rd_description result = Some d"
    and "\<forall>term\<in>set query_terms. \<not> is_substring (lower term) (lower (t @ '' '' @ d))"
  shows "calculate_relevance result query_terms = Inr 0 \<and> calculate_relevance result [] = Inr 0"
proof
  let ?text = "lower (t @ '' '' @ d)"
  have "filter (\<lambda>term. is_substring term ?text) (remdups (map lower query_terms)) = []"
    using assms(3) by (auto simp: filter_empty_conv)
  then show "calculate_relevance result query_terms = Inr 0"
    using assms(1,2) by (simp add: calculate_relevance_def Let_def)
  show "calculate_relevance result [] = Inr 0"
    using assms(1,2) by (simp add: calculate_relevance_def Let_def)
qed

theorem calculate_relevance_zero_witness:
  "rd_title abc_result = Some ''abc'' \<and> rd_description abc_result = Some [] \<and>
   \<not> is_substring (lower ''Python'') (lower (''abc'' @ '' '' @ [])) \<and>
   \<not> is_substring (lower ''tutorial'') (lower (''abc'' @ '' '' @ [])) \<and>
   calculate_relevance abc_result [''Python'', ''tutorial''] = Inr 0"
  using calculate_relevance_zero [of abc_result "''abc''" "[]" "[''Python'', ''tutorial'']"]
  by (simp add: str_simps abc_result_def)

text \<open>
  C10 as stated fails: the term \<^verbatim>\<open>ABC\<close> does not occur in the lower-cased text
  \<^verbatim>\<open>abc\<close> followed by a space, yet the relevance of that result for the query terms
  \<^verbatim>\<open>{ABC}\<close> is 1, because the term is lower-cased first.
\<close>

theorem calculate_relevance_upper_case_term:
  "\<not> is_substring ''ABC'' (lower (''abc'' @ '' '' @ [])) \<and>
   calculate_relevance abc_result [''ABC''] = Inr 1"
  by (simp add: str_simps calculate_relevance_def abc_result_def)

end
